theory Spec2Isabelle
  imports Main "HOL-Library.Sublist"
begin

section \<open>Transport client (frontend/src/api.js)\<close>

text \<open>
  The three operations \<^verbatim>\<open>uploadVideo\<close>, \<^verbatim>\<open>getSession\<close> and \<^verbatim>\<open>sendChat\<close> await a
  \<^verbatim>\<open>fetch\<close> and then look only at the response. The model takes the outcome of the
  \<^verbatim>\<open>fetch\<close> as its argument and returns what the async function settles with:
  \<open>Inl e\<close> when it rejects with \<open>e\<close>, \<open>Inr v\<close> when it resolves with \<open>v\<close>.
\<close>

subsection \<open>JSON values as the error branch sees them\<close>

text \<open>
  On the error branch the source reads \<^verbatim>\<open>data.detail\<close> of whatever the body parses
  to, tests it for truthiness and hands it to \<^verbatim>\<open>new Error\<close>, which converts it to a
  string. Any JSON value can arrive there, so the body is a JSON value. Of a number the
  code observes two things only, whether it is zero (falsy) and how \<^verbatim>\<open>String\<close> renders
  it; a number is kept as that pair. An object is the list of its own properties; when a
  key occurs twice the last occurrence counts, as in \<^verbatim>\<open>JSON.parse\<close>.
\<close>

datatype js_number = Number (is_zero: bool) (rendering: string)

datatype json =
    JNull
  | JBool bool
  | JNum js_number
  | JStr string
  | JArr "json list"
  | JObj "(string \<times> json) list"

datatype 'a body = Unparseable | Parsed 'a

text \<open>
  What an operation can reject with: an error with a known message (\<^verbatim>\<open>new Error(msg)\<close>,
  or the error of the \<^verbatim>\<open>fetch\<close> or of \<^verbatim>\<open>res.json()\<close> itself), the \<^verbatim>\<open>TypeError\<close> of
  reading a property of \<^verbatim>\<open>null\<close>, or the \<^verbatim>\<open>TypeError\<close> of converting an object to a
  string that has no usable \<^verbatim>\<open>toString\<close>. The text of the two type errors is chosen by
  the JavaScript engine and is not modelled.
\<close>

datatype rejection =
    Rejected string
  | NullPropertyRead string
  | NotConvertible

text \<open>
  \<^verbatim>\<open>res.json()\<close> is called once per branch: on the error branch its result is inspected
  (\<open>error_json\<close>), on the success branch it is returned as it is (\<open>json\<close>, the payload
  or the rejection of the parse), so that reading may keep the type of the payload.
\<close>

record 'a response =
  res_status :: nat
  error_json :: "json body"
  json :: "rejection + 'a"

datatype 'a fetch_outcome = NetworkFailure string | Response "'a response"

text \<open>\<^verbatim>\<open>res.ok\<close> of the Fetch API: the status is in the range 200-299.\<close>

definition ok :: "'a response \<Rightarrow> bool" where
  "ok res = (200 \<le> res_status res \<and> res_status res \<le> 299)"

text \<open>Decimal rendering of a number inside a template literal.\<close>

definition digit_char :: "nat \<Rightarrow> char" where
  "digit_char d = ''0123456789'' ! d"

fun string_of_nat :: "nat \<Rightarrow> string" where
  "string_of_nat n =
     (if n < 10 then [digit_char n]
      else string_of_nat (n div 10) @ [digit_char (n mod 10)])"

declare string_of_nat.simps [simp del]

text \<open>\<^verbatim>\<open>res.json().catch(() => ({}))\<close>: a body that does not parse becomes the empty object.\<close>

definition json_or_empty :: "json body \<Rightarrow> json" where
  "json_or_empty b = (case b of Unparseable \<Rightarrow> JObj [] | Parsed d \<Rightarrow> d)"

text \<open>
  \<^verbatim>\<open>data.detail\<close>: reading a property of \<^verbatim>\<open>null\<close> throws; an object gives its own
  property or \<^verbatim>\<open>undefined\<close> (\<open>None\<close>); a boolean, number, string or array has no
  property of that name.
\<close>

definition own_property :: "(string \<times> json) list \<Rightarrow> string \<Rightarrow> json option" where
  "own_property ps k = map_of (rev ps) k"

fun get_detail :: "json \<Rightarrow> rejection + json option" where
  "get_detail JNull = Inl (NullPropertyRead ''detail'')"
| "get_detail (JObj ps) = Inr (own_property ps ''detail'')"
| "get_detail _ = Inr None"

text \<open>Truthiness: \<^verbatim>\<open>null\<close>, \<^verbatim>\<open>false\<close>, zero and the empty string are falsy.\<close>

fun truthy :: "json \<Rightarrow> bool" where
  "truthy JNull = False"
| "truthy (JBool b) = b"
| "truthy (JNum n) = (\<not> is_zero n)"
| "truthy (JStr s) = (s \<noteq> [])"
| "truthy (JArr _) = True"
| "truthy (JObj _) = True"

text \<open>
  \<^verbatim>\<open>String(v)\<close>, the conversion \<^verbatim>\<open>new Error(v)\<close> applies to its argument; \<open>None\<close> when
  it throws. An array is its elements joined by commas, \<^verbatim>\<open>null\<close> elements rendered
  empty. A parsed object is \<^verbatim>\<open>[object Object]\<close>, unless it has an own property
  \<^verbatim>\<open>toString\<close>: that property is not callable, the inherited \<^verbatim>\<open>valueOf\<close> returns the
  object itself, and the conversion throws.
\<close>

fun join_comma :: "string list \<Rightarrow> string" where
  "join_comma [] = []"
| "join_comma [x] = x"
| "join_comma (x # y # ys) = x @ '','' @ join_comma (y # ys)"

fun js_String :: "json \<Rightarrow> string option" where
  "js_String JNull = Some ''null''"
| "js_String (JBool b) = Some (if b then ''true'' else ''false'')"
| "js_String (JNum n) = Some (rendering n)"
| "js_String (JStr s) = Some s"
| "js_String (JArr xs) =
     map_option join_comma
       (those (map (\<lambda>x. if x = JNull then Some [] else js_String x) xs))"
| "js_String (JObj ps) =
     (if own_property ps ''toString'' \<noteq> None then None else Some ''[object Object]'')"

text \<open>\<^verbatim>\<open>throw new Error(v)\<close>: what the operation rejects with.\<close>

definition new_Error :: "json \<Rightarrow> rejection" where
  "new_Error v = (case js_String v of None \<Rightarrow> NotConvertible | Some m \<Rightarrow> Rejected m)"

text \<open>
  \<^verbatim>\<open>throw new Error(data.detail || fallback)\<close>: the property read may throw; a detail
  that is absent or falsy gives the fallback; a truthy detail of any type is converted to
  the message.
\<close>

definition throw_detail_or :: "json \<Rightarrow> string \<Rightarrow> rejection" where
  "throw_detail_or data fallback =
     (case get_detail data of
        Inl e \<Rightarrow> e
      | Inr None \<Rightarrow> new_Error (JStr fallback)
      | Inr (Some v) \<Rightarrow> if truthy v then new_Error v else new_Error (JStr fallback))"

subsection \<open>The three operations\<close>

definition uploadVideo :: "'a fetch_outcome \<Rightarrow> rejection + 'a" where
  "uploadVideo out =
     (case out of
        NetworkFailure m \<Rightarrow> Inl (Rejected m)
      | Response res \<Rightarrow>
          if \<not> ok res then
            (let data = json_or_empty (error_json res) in
             Inl (throw_detail_or data
                    (''Upload failed ('' @ string_of_nat (res_status res) @ '')'')))
          else json res)"

definition getSession :: "'a fetch_outcome \<Rightarrow> rejection + 'a" where
  "getSession out =
     (case out of
        NetworkFailure m \<Rightarrow> Inl (Rejected m)
      | Response res \<Rightarrow>
          if \<not> ok res then
            (let data = json_or_empty (error_json res) in
             Inl (throw_detail_or data
                    (''Failed to fetch session ('' @ string_of_nat (res_status res) @ '')'')))
          else json res)"

definition sendChat :: "'a fetch_outcome \<Rightarrow> rejection + 'a" where
  "sendChat out =
     (case out of
        NetworkFailure m \<Rightarrow> Inl (Rejected m)
      | Response res \<Rightarrow>
          if \<not> ok res then
            (let data = json_or_empty (error_json res) in
             Inl (throw_detail_or data
                    (''Chat failed ('' @ string_of_nat (res_status res) @ '')'')))
          else json res)"

text \<open>
  The shape \<^verbatim>\<open>"<Operation> failed (<status>)"\<close>: whatever the operation is called, the
  message ends with \<^verbatim>\<open>" failed (<status>)"\<close>.
\<close>

definition ends_with :: "string \<Rightarrow> string \<Rightarrow> bool" where
  "ends_with sfx s =
     (length sfx \<le> length s \<and> drop (length s - length sfx) s = sfx)"

definition operation_failed_form :: "nat \<Rightarrow> string \<Rightarrow> bool" where
  "operation_failed_form st msg = ends_with ('' failed ('' @ string_of_nat st @ '')'') msg"

text \<open>
  The error bodies for which the fallback message is due: the body does not parse, or it
  parses to a value other than \<^verbatim>\<open>null\<close> whose \<^verbatim>\<open>detail\<close> is absent or falsy.
\<close>

definition no_detail :: "json body \<Rightarrow> bool" where
  "no_detail b =
     (case b of
        Unparseable \<Rightarrow> True
      | Parsed j \<Rightarrow>
          (case get_detail j of
             Inl _ \<Rightarrow> False
           | Inr None \<Rightarrow> True
           | Inr (Some v) \<Rightarrow> \<not> truthy v))"

section \<open>Session poller (frontend/src/components/ProcessingScreen.jsx)\<close>

text \<open>
  What \<^verbatim>\<open>getSession\<close> resolves with: the session object of the backend, of which the
  poller reads \<^verbatim>\<open>status\<close> only; the remaining properties are kept as they came.
\<close>

record session =
  session_id :: string
  status :: string
  rest :: "(string \<times> string) list"

datatype callback = OnComplete session | OnError string

text \<open>
  Every run of the polling effect (lines 28-63) creates its own closure \<^verbatim>\<open>poll\<close> over
  the \<^verbatim>\<open>sessionId\<close> of that render and its own \<^verbatim>\<open>initialDelay\<close> timer: a chain. A
  chain waits for its initial timer, waits for an interval timer, has a request in flight,
  or has finished: \<^verbatim>\<open>poll\<close> is entered from a timer only, and sets the next timer only
  after its request has settled.
\<close>

datatype phase = InitialDelay | IntervalDelay | InFlight | Finished

record chain =
  chain_sessionId :: string
  phase :: phase

text \<open>
  One mounted \<^verbatim>\<open>ProcessingScreen\<close>: \<open>cancelled\<close> is \<^verbatim>\<open>cancelledRef.current\<close>, the one
  ref of the component shared by all runs of the effect; \<open>requests\<close> logs the session
  ids of the \<^verbatim>\<open>getSession\<close> calls issued and \<open>calls\<close> the callbacks invoked, in order.
\<close>

record poller =
  cancelled :: bool
  chains :: "chain list"
  requests :: "string list"
  calls :: "callback list"

definition initial_poller :: poller where
  "initial_poller = \<lparr>cancelled = False, chains = [], requests = [], calls = []\<rparr>"

definition timer_pending :: "chain \<Rightarrow> bool" where
  "timer_pending c = (phase c = InitialDelay \<or> phase c = IntervalDelay)"

definition set_phase :: "nat \<Rightarrow> phase \<Rightarrow> poller \<Rightarrow> poller" where
  "set_phase k ph p = p\<lparr>chains := (chains p)[k := (chains p ! k)\<lparr>phase := ph\<rparr>]\<rparr>"

definition processing_failed_message :: string where
  "processing_failed_message = ''Processing failed. Please try again with a different video.''"

text \<open>
  \<^verbatim>\<open>poll\<close> up to its \<^verbatim>\<open>await\<close> (lines 32-35), run when a timer of chain \<open>k\<close> fires: it
  returns at once when the flag is set, and issues \<^verbatim>\<open>getSession(sessionId)\<close> otherwise.
\<close>

definition poll_begin :: "nat \<Rightarrow> poller \<Rightarrow> poller" where
  "poll_begin k p =
     (if cancelled p then set_phase k Finished p
      else (set_phase k InFlight p)\<lparr>requests := requests p @ [chain_sessionId (chains p ! k)]\<rparr>)"

text \<open>
  \<^verbatim>\<open>poll\<close> after its \<^verbatim>\<open>await\<close> (lines 37-54), run when the request of chain \<open>k\<close>
  settles with \<open>r\<close>: \<open>Inr data\<close> continues in the \<^verbatim>\<open>try\<close> block, \<open>Inl msg\<close> in the
  \<^verbatim>\<open>catch\<close> block. The callbacks are the state setters of the application and do not
  throw.
\<close>

definition poll_settled :: "nat \<Rightarrow> string + session \<Rightarrow> poller \<Rightarrow> poller" where
  "poll_settled k r p =
     (case r of
        Inr data \<Rightarrow>
          if cancelled p then set_phase k Finished p
          else if status data = ''completed'' then
            (set_phase k Finished p)\<lparr>calls := calls p @ [OnComplete data]\<rparr>
          else if status data = ''failed'' then
            (set_phase k Finished p)\<lparr>calls := calls p @ [OnError processing_failed_message]\<rparr>
          else set_phase k IntervalDelay p
      | Inl msg \<Rightarrow>
          if \<not> cancelled p then (set_phase k Finished p)\<lparr>calls := calls p @ [OnError msg]\<rparr>
          else set_phase k Finished p)"

text \<open>The body of the effect (lines 29-57): re-arms the flag and starts a chain.\<close>

definition effect_run :: "string \<Rightarrow> poller \<Rightarrow> poller" where
  "effect_run sid p =
     p\<lparr>cancelled := False,
       chains := chains p @ [\<lparr>chain_sessionId = sid, phase = InitialDelay\<rparr>]\<rparr>"

text \<open>
  The cleanup returned by run \<open>k\<close> of the effect (lines 59-62): sets the flag and clears
  the initial timer of that run, which has an effect only while that timer is pending.
\<close>

definition cleanup :: "nat \<Rightarrow> poller \<Rightarrow> poller" where
  "cleanup k p =
     (let p' = p\<lparr>cancelled := True\<rparr> in
      if phase (chains p ! k) = InitialDelay then set_phase k Finished p' else p')"

text \<open>
  What can happen to a mounted component. React runs the effect on mount, runs the cleanup
  of the previous run followed by the effect again when \<^verbatim>\<open>sessionId\<close> changes, and runs
  the cleanup of the last run on unmount. A timer fires only while it is pending and a
  request settles only while it is in flight; the event is ignored otherwise.
\<close>

datatype event =
    EffectRun string
  | Cleanup nat
  | TimerFires nat
  | PollSettles nat "string + session"

fun step :: "event \<Rightarrow> poller \<Rightarrow> poller" where
  "step (EffectRun sid) p = effect_run sid p"
| "step (Cleanup k) p = (if k < length (chains p) then cleanup k p else p)"
| "step (TimerFires k) p =
     (if k < length (chains p) \<and> timer_pending (chains p ! k) then poll_begin k p else p)"
| "step (PollSettles k r) p =
     (if k < length (chains p) \<and> phase (chains p ! k) = InFlight then poll_settled k r p else p)"

definition run :: "event list \<Rightarrow> poller \<Rightarrow> poller" where
  "run es p = foldl (\<lambda>q e. step e q) p es"

definition mounted :: "string \<Rightarrow> poller" where
  "mounted sid = step (EffectRun sid) initial_poller"

text \<open>
  A run of chain \<open>k\<close> that is never cancelled: each outcome in the list is one timer tick
  followed by the settling of the request that tick issued.
\<close>

definition poll_rounds :: "nat \<Rightarrow> (string + session) list \<Rightarrow> event list" where
  "poll_rounds k rs = concat (map (\<lambda>r. [TimerFires k, PollSettles k r]) rs)"

fun is_effect_run :: "event \<Rightarrow> bool" where
  "is_effect_run (EffectRun _) = True"
| "is_effect_run _ = False"

section \<open>Lifecycle controller (App.jsx)\<close>

datatype screen = Upload | Processing | Results

text \<open>
  The four state cells of \<^verbatim>\<open>App\<close> that make up the lifecycle; \<open>None\<close> is \<^verbatim>\<open>null\<close>. The
  easter-egg state of the component takes no part in it.
\<close>

record app =
  screen :: screen
  sessionId :: "string option"
  report :: "session option"
  error :: string

definition initial_app :: app where
  "initial_app = \<lparr>screen = Upload, sessionId = None, report = None, error = []\<rparr>"

definition handleSessionCreated :: "string \<Rightarrow> app \<Rightarrow> app" where
  "handleSessionCreated id' s = s\<lparr>sessionId := Some id', screen := Processing, error := []\<rparr>"

definition handleComplete :: "session \<Rightarrow> app \<Rightarrow> app" where
  "handleComplete data s = s\<lparr>report := Some data, screen := Results\<rparr>"

definition handleError :: "string \<Rightarrow> app \<Rightarrow> app" where
  "handleError msg s = s\<lparr>error := msg, screen := Upload\<rparr>"

definition handleReset :: "app \<Rightarrow> app" where
  "handleReset s = s\<lparr>screen := Upload, sessionId := None, report := None, error := []\<rparr>"

text \<open>
  The handlers are reached through the components \<^verbatim>\<open>App\<close> renders (lines 287-340):
  \<^verbatim>\<open>UploadForm\<close> with \<^verbatim>\<open>onSessionCreated\<close> and the dismiss button of the error banner on
  the upload screen, \<^verbatim>\<open>ProcessingScreen\<close> with \<^verbatim>\<open>onComplete\<close> and \<^verbatim>\<open>onError\<close> on the
  processing screen, \<^verbatim>\<open>ResultsScreen\<close> with \<^verbatim>\<open>onReset\<close> on the results screen when a
  report is there. An event whose component is not rendered does not occur.
\<close>

datatype app_event =
    SessionCreated string
  | Completed session
  | Failed string
  | Reset
  | DismissError

fun fire :: "app_event \<Rightarrow> app \<Rightarrow> app" where
  "fire (SessionCreated id') s = (if screen s = Upload then handleSessionCreated id' s else s)"
| "fire (Completed data) s = (if screen s = Processing then handleComplete data s else s)"
| "fire (Failed msg) s = (if screen s = Processing then handleError msg s else s)"
| "fire Reset s = (if screen s = Results \<and> report s \<noteq> None then handleReset s else s)"
| "fire DismissError s = (if screen s = Upload \<and> error s \<noteq> [] then s\<lparr>error := []\<rparr> else s)"

definition app_run :: "app_event list \<Rightarrow> app \<Rightarrow> app" where
  "app_run es s = foldl (\<lambda>q e. fire e q) s es"

section \<open>Chat session (frontend/src/components/ChatPanel.jsx)\<close>

datatype role = User | Assistant

record message =
  role :: role
  content :: string

record chat_reply =
  reply :: string

text \<open>The state cells of \<^verbatim>\<open>ChatPanel\<close>; \<open>chat_error\<close> is its \<^verbatim>\<open>error\<close>.\<close>

record chat =
  messages :: "message list"
  input :: string
  loading :: bool
  chat_error :: string

definition initial_chat :: chat where
  "initial_chat = \<lparr>messages = [], input = [], loading = False, chat_error = []\<rparr>"

text \<open>
  \<^verbatim>\<open>String.prototype.trim\<close> on strings of 8-bit code units: the white space and line
  terminators below 256 are tab, line feed, vertical tab, form feed, carriage return,
  space and the no-break space.
\<close>

definition is_space :: "char \<Rightarrow> bool" where
  "is_space c =
     (c \<in> set [CHR 0x09, CHR 0x0A, CHR 0x0B, CHR 0x0C, CHR 0x0D, CHR 0x20, CHR 0xA0])"

definition trim :: "string \<Rightarrow> string" where
  "trim s = rev (dropWhile is_space (rev (dropWhile is_space s)))"

text \<open>
  \<^verbatim>\<open>handleSend\<close> up to its \<^verbatim>\<open>await\<close> (lines 27-37). The result is the state with the
  updates made so far and the \<^verbatim>\<open>sendChat(sessionId, text)\<close> call issued, if any.
\<close>

definition handleSend :: "string \<Rightarrow> chat \<Rightarrow> chat \<times> (string \<times> string) option" where
  "handleSend sid s =
     (let text = trim (input s) in
      if text = [] \<or> loading s then (s, None)
      else
        (s\<lparr>input := [],
           chat_error := [],
           messages := messages s @ [\<lparr>role = User, content = text\<rparr>],
           loading := True\<rparr>,
         Some (sid, text)))"

text \<open>
  \<^verbatim>\<open>handleSend\<close> after its \<^verbatim>\<open>await\<close> (lines 38-47), when \<^verbatim>\<open>sendChat\<close> has settled with
  \<open>r\<close>: the \<^verbatim>\<open>try\<close> branch for \<open>Inr data\<close>, the \<^verbatim>\<open>catch\<close> branch for \<open>Inl msg\<close>, then
  \<^verbatim>\<open>finally\<close>.
\<close>

definition handleSend_settled :: "string + chat_reply \<Rightarrow> chat \<Rightarrow> chat" where
  "handleSend_settled r s =
     (case r of
        Inr data \<Rightarrow>
          s\<lparr>messages := messages s @ [\<lparr>role = Assistant, content = reply data\<rparr>],
            loading := False\<rparr>
      | Inl msg \<Rightarrow> s\<lparr>chat_error := msg, loading := False\<rparr>)"

text \<open>
  The panel together with the \<^verbatim>\<open>sendChat\<close> calls that have not settled yet. The events
  are a submit of the form (or Enter), a change of the input field, the dismiss button of
  the error, and the settling of the oldest outstanding call.
\<close>

record chat_system =
  panel :: chat
  outstanding :: "(string \<times> string) list"

datatype chat_event = Send | Type string | Dismiss | Settle "string + chat_reply"

definition initial_chat_system :: chat_system where
  "initial_chat_system = \<lparr>panel = initial_chat, outstanding = []\<rparr>"

fun chat_step :: "string \<Rightarrow> chat_event \<Rightarrow> chat_system \<Rightarrow> chat_system" where
  "chat_step sid Send sys =
     (case handleSend sid (panel sys) of
        (s', None) \<Rightarrow> sys\<lparr>panel := s'\<rparr>
      | (s', Some req) \<Rightarrow> sys\<lparr>panel := s', outstanding := outstanding sys @ [req]\<rparr>)"
| "chat_step sid (Type t) sys = sys\<lparr>panel := (panel sys)\<lparr>input := t\<rparr>\<rparr>"
| "chat_step sid Dismiss sys = sys\<lparr>panel := (panel sys)\<lparr>chat_error := []\<rparr>\<rparr>"
| "chat_step sid (Settle r) sys =
     (if outstanding sys = [] then sys
      else sys\<lparr>panel := handleSend_settled r (panel sys), outstanding := tl (outstanding sys)\<rparr>)"

definition chat_run :: "string \<Rightarrow> chat_event list \<Rightarrow> chat_system \<Rightarrow> chat_system" where
  "chat_run sid es sys = foldl (\<lambda>q e. chat_step sid e q) sys es"

section \<open>Auxiliary definitions for the proofs\<close>

text \<open>
  The poller state of a single chain that has never been cancelled and has not called
  back yet: its phase, and \<open>n\<close> requests issued so far.
\<close>

definition waiting :: "phase \<Rightarrow> nat \<Rightarrow> string \<Rightarrow> poller" where
  "waiting ph n sid =
     \<lparr>cancelled = False, chains = [\<lparr>chain_sessionId = sid, phase = ph\<rparr>],
      requests = replicate n sid, calls = []\<rparr>"

definition report_iff_results :: "app \<Rightarrow> bool" where
  "report_iff_results s = ((report s \<noteq> None) = (screen s = Results))"

fun is_settle :: "chat_event \<Rightarrow> bool" where
  "is_settle (Settle _) = True"
| "is_settle _ = False"

definition chat_consistent :: "chat_system \<Rightarrow> bool" where
  "chat_consistent sys =
     (length (outstanding sys) \<le> 1 \<and> loading (panel sys) = (outstanding sys \<noteq> []))"

section \<open>Theorems\<close>

subsection \<open>Transport client\<close>

lemma string_of_nat_404: "string_of_nat 404 = ''404''"
  by (simp add: string_of_nat.simps digit_char_def)

lemma string_of_nat_500: "string_of_nat 500 = ''500''"
  by (simp add: string_of_nat.simps digit_char_def)

lemma throw_detail_or_string:
  "own_property ps ''detail'' = Some (JStr m) \<Longrightarrow> m \<noteq> [] \<Longrightarrow>
   throw_detail_or (JObj ps) fallback = Rejected m"
  by (simp add: throw_detail_or_def new_Error_def)

lemma throw_detail_or_fallback:
  "no_detail b \<Longrightarrow> throw_detail_or (json_or_empty b) fallback = Rejected fallback"
  by (auto simp: no_detail_def throw_detail_or_def json_or_empty_def new_Error_def
        own_property_def split: body.splits sum.splits option.splits)

text \<open>
  Claim C4, as amended. On a non-success response each of the three operations rejects
  with an error whose message is the \<^verbatim>\<open>detail\<close> of the error body, when the body parses
  to an object whose detail is a non-empty string. When the body does not parse, or
  parses to a value other than \<^verbatim>\<open>null\<close> whose detail is absent or falsy, the message is
  \<^verbatim>\<open>Upload failed (<status>)\<close> for create session,
  \<^verbatim>\<open>Failed to fetch session (<status>)\<close> for get session and
  \<^verbatim>\<open>Chat failed (<status>)\<close> for send chat; in particular a body that does not
  parse never makes the operation throw anything else. Nothing is said about a body that
  parses to \<^verbatim>\<open>null\<close> or about a truthy detail that is not a string.
\<close>

theorem transport_error_message:
  "\<not> ok res \<Longrightarrow>
     (error_json res = Parsed (JObj ps) \<and> own_property ps ''detail'' = Some (JStr m) \<and>
      m \<noteq> [] \<longrightarrow>
        uploadVideo (Response res) = Inl (Rejected m) \<and>
        getSession (Response res) = Inl (Rejected m) \<and>
        sendChat (Response res) = Inl (Rejected m)) \<and>
     (no_detail (error_json res) \<longrightarrow>
        uploadVideo (Response res) =
          Inl (Rejected (''Upload failed ('' @ string_of_nat (res_status res) @ '')'')) \<and>
        getSession (Response res) =
          Inl (Rejected (''Failed to fetch session ('' @ string_of_nat (res_status res) @ '')'')) \<and>
        sendChat (Response res) =
          Inl (Rejected (''Chat failed ('' @ string_of_nat (res_status res) @ '')'')))"
  by (simp add: uploadVideo_def getSession_def sendChat_def throw_detail_or_fallback)
     (simp add: json_or_empty_def throw_detail_or_string)

text \<open>
  The two scenarios of the specification: a rejected upload with the body
  \<^verbatim>\<open>{detail: "file too large"}\<close>, and a chat rejected with status 500 and no parseable body.
\<close>

theorem transport_error_message_witness:
  "uploadVideo (Response \<lparr>res_status = 413,
       error_json = Parsed (JObj [(''detail'', JStr ''file too large'')]),
       json = Inl (Rejected [])\<rparr>)
     = (Inl (Rejected ''file too large'') :: rejection + session) \<and>
   sendChat (Response \<lparr>res_status = 500, error_json = Unparseable, json = Inl (Rejected [])\<rparr>)
     = (Inl (Rejected ''Chat failed (500)'') :: rejection + chat_reply)"
  using transport_error_message
          [of "\<lparr>res_status = 413,
                error_json = Parsed (JObj [(''detail'', JStr ''file too large'')]),
                json = Inl (Rejected [])\<rparr> :: session response"
              "[(''detail'', JStr ''file too large'')]" "''file too large''"]
        transport_error_message
          [of "\<lparr>res_status = 500, error_json = Unparseable,
                json = Inl (Rejected [])\<rparr> :: chat_reply response"]
  by (simp add: ok_def string_of_nat_500 own_property_def no_detail_def)

text \<open>
  Claim C4 as stated fails for get session: with status 404 and a body that does not
  parse, the message is \<^verbatim>\<open>Failed to fetch session (404)\<close>, which is not of the shape
  \<^verbatim>\<open><Operation> failed (404)\<close>.
\<close>

theorem getSession_message_counterexample:
  "getSession (Response \<lparr>res_status = 404, error_json = Unparseable, json = Inl (Rejected [])\<rparr>)
     = (Inl (Rejected ''Failed to fetch session (404)'') :: rejection + session) \<and>
   \<not> operation_failed_form 404 ''Failed to fetch session (404)''"
  by (simp add: getSession_def ok_def json_or_empty_def throw_detail_or_def new_Error_def
      own_property_def string_of_nat_404 operation_failed_form_def ends_with_def)

text \<open>
  The error bodies the amended claim is silent about. A body that parses to \<^verbatim>\<open>null\<close>
  makes \<^verbatim>\<open>data.detail\<close> throw, and the operation rejects with that \<^verbatim>\<open>TypeError\<close>. A
  truthy detail that is not a string becomes the message by conversion: the list of
  validation errors of a 422 response surfaces as \<^verbatim>\<open>[object Object]\<close>.
\<close>

lemma null_body_rejects_with_type_error:
  "uploadVideo (Response \<lparr>res_status = 500, error_json = Parsed JNull, json = Inl (Rejected [])\<rparr>)
     = (Inl (NullPropertyRead ''detail'') :: rejection + session)"
  by (simp add: uploadVideo_def ok_def json_or_empty_def throw_detail_or_def)

lemma list_detail_is_converted:
  "uploadVideo (Response \<lparr>res_status = 422,
       error_json = Parsed (JObj [(''detail'',
          JArr [JObj [(''loc'', JArr [JStr ''body'', JStr ''video'']),
                      (''msg'', JStr ''Field required'')]])]),
       json = Inl (Rejected [])\<rparr>)
     = (Inl (Rejected ''[object Object]'') :: rejection + session)"
  by (simp add: uploadVideo_def ok_def json_or_empty_def throw_detail_or_def new_Error_def
      own_property_def)

subsection \<open>Session poller\<close>



lemma run_append: "run (es @ fs) p = run fs (run es p)"
  by (simp add: run_def)

lemma run_Nil: "run [] p = p"
  by (simp add: run_def)

lemma run_Cons: "run (e # es) p = run es (step e p)"
  by (simp add: run_def)

lemma poll_rounds_Nil: "poll_rounds k [] = []"
  by (simp add: poll_rounds_def)

lemma poll_rounds_Cons: "poll_rounds k (r # rs) = TimerFires k # PollSettles k r # poll_rounds k rs"
  by (simp add: poll_rounds_def)

lemma poll_rounds_append: "poll_rounds k (rs @ ss) = poll_rounds k rs @ poll_rounds k ss"
  by (simp add: poll_rounds_def)

lemma mounted_waiting: "mounted sid = waiting InitialDelay 0 sid"
  by (simp add: mounted_def initial_poller_def effect_run_def waiting_def)

lemma replicate_snoc: "replicate n x @ [x] = replicate (Suc n) x"
  by (simp add: replicate_append_same)

lemma round_pending:
  assumes "ph = InitialDelay \<or> ph = IntervalDelay"
    and "status d \<noteq> ''completed''" and "status d \<noteq> ''failed''"
  shows "step (PollSettles 0 (Inr d)) (step (TimerFires 0) (waiting ph n sid))
         = waiting IntervalDelay (Suc n) sid"
  using assms
  by (auto simp: waiting_def timer_pending_def poll_begin_def poll_settled_def set_phase_def
      replicate_append_same)

lemma round_completed:
  assumes "ph = InitialDelay \<or> ph = IntervalDelay" and "status d = ''completed''"
  shows "step (PollSettles 0 (Inr d)) (step (TimerFires 0) (waiting ph n sid))
         = (waiting Finished (Suc n) sid)\<lparr>calls := [OnComplete d]\<rparr>"
  using assms
  by (auto simp: waiting_def timer_pending_def poll_begin_def poll_settled_def set_phase_def
      replicate_append_same)

lemma round_failed:
  assumes "ph = InitialDelay \<or> ph = IntervalDelay" and "status d = ''failed''"
  shows "step (PollSettles 0 (Inr d)) (step (TimerFires 0) (waiting ph n sid))
         = (waiting Finished (Suc n) sid)\<lparr>calls := [OnError processing_failed_message]\<rparr>"
  using assms
  by (auto simp: waiting_def timer_pending_def poll_begin_def poll_settled_def set_phase_def
      replicate_append_same)

lemma round_rejected:
  assumes "ph = InitialDelay \<or> ph = IntervalDelay"
  shows "step (PollSettles 0 (Inl msg)) (step (TimerFires 0) (waiting ph n sid))
         = (waiting Finished (Suc n) sid)\<lparr>calls := [OnError msg]\<rparr>"
  using assms
  by (auto simp: waiting_def timer_pending_def poll_begin_def poll_settled_def set_phase_def
      replicate_append_same)

lemma rounds_pending:
  assumes "ph = InitialDelay \<or> ph = IntervalDelay"
    and "\<forall>r\<in>set rs. status r \<noteq> ''completed'' \<and> status r \<noteq> ''failed''"
  shows "run (poll_rounds 0 (map Inr rs)) (waiting ph n sid)
         = waiting (if rs = [] then ph else IntervalDelay) (n + length rs) sid"
  using assms
proof (induction rs arbitrary: ph n)
  case Nil
  then show ?case by (simp add: poll_rounds_Nil run_Nil)
next
  case (Cons r rs)
  have "run (poll_rounds 0 (map Inr (r # rs))) (waiting ph n sid)
        = run (poll_rounds 0 (map Inr rs)) (waiting IntervalDelay (Suc n) sid)"
    using Cons.prems by (simp add: poll_rounds_Cons run_Cons round_pending del: step.simps)
  also have "\<dots> = waiting (if rs = [] then IntervalDelay else IntervalDelay) (Suc n + length rs) sid"
    using Cons.prems by (intro Cons.IH) simp_all
  finally show ?case by simp
qed

lemma finished_stable:
  assumes "chains p = [\<lparr>chain_sessionId = sid, phase = Finished\<rparr>]"
  shows "run (poll_rounds 0 rs) p = p"
  using assms
  by (induction rs) (simp_all add: poll_rounds_Nil poll_rounds_Cons run_Nil run_Cons timer_pending_def)

lemma pending_is_not_terminal:
  "status r = ''pending'' \<or> status r = ''processing'' \<Longrightarrow>
   status r \<noteq> ''completed'' \<and> status r \<noteq> ''failed''"
  by auto

text \<open>
  Claim C2. In a run that is never cancelled: while every response has status
  \<^verbatim>\<open>pending\<close> or \<^verbatim>\<open>processing\<close>, no callback is invoked and a timer for the next
  poll is pending. On the first response with status \<^verbatim>\<open>completed\<close>, \<^verbatim>\<open>onComplete\<close> is
  invoked exactly once, with the session data received; on the first response with status
  \<^verbatim>\<open>failed\<close>, \<^verbatim>\<open>onError\<close> is invoked exactly once, with the fixed message. In both cases
  the chain has finished: whatever is offered to it later, there is no further request
  and no further callback.
\<close>

theorem poll_status_sequence:
  assumes "\<forall>r\<in>set rs. status r = ''pending'' \<or> status r = ''processing''"
  shows "(let p = run (poll_rounds 0 (map Inr rs)) (mounted sid) in
            calls p = [] \<and> timer_pending (chains p ! 0)) \<and>
         (status d = ''completed'' \<longrightarrow>
            (let q = run (poll_rounds 0 (map Inr rs @ Inr d # later)) (mounted sid) in
               calls q = [OnComplete d] \<and>
               chains q = [\<lparr>chain_sessionId = sid, phase = Finished\<rparr>] \<and>
               requests q = replicate (Suc (length rs)) sid)) \<and>
         (status f = ''failed'' \<longrightarrow>
            (let q = run (poll_rounds 0 (map Inr rs @ Inr f # later)) (mounted sid) in
               calls q = [OnError processing_failed_message] \<and>
               chains q = [\<lparr>chain_sessionId = sid, phase = Finished\<rparr>] \<and>
               requests q = replicate (Suc (length rs)) sid))"
proof -
  let ?ph = "if rs = [] then InitialDelay else IntervalDelay"
  have nt: "\<forall>r\<in>set rs. status r \<noteq> ''completed'' \<and> status r \<noteq> ''failed''"
    using assms pending_is_not_terminal by blast
  have pre: "run (poll_rounds 0 (map Inr rs)) (mounted sid) = waiting ?ph (length rs) sid"
    using rounds_pending [of InitialDelay rs 0 sid] nt by (simp add: mounted_waiting)
  have ph: "?ph = InitialDelay \<or> ?ph = IntervalDelay" by simp
  have a: "calls (waiting ?ph (length rs) sid) = [] \<and>
           timer_pending (chains (waiting ?ph (length rs) sid) ! 0)"
    by (simp add: waiting_def timer_pending_def)
  have split: "\<And>x. run (poll_rounds 0 (map Inr rs @ x # later)) (mounted sid)
        = run (poll_rounds 0 later)
            (step (PollSettles 0 x) (step (TimerFires 0) (waiting ?ph (length rs) sid)))"
    by (simp only: poll_rounds_append poll_rounds_Cons run_append run_Cons pre)
  have b: "status d = ''completed'' \<Longrightarrow>
      run (poll_rounds 0 (map Inr rs @ Inr d # later)) (mounted sid)
      = (waiting Finished (Suc (length rs)) sid)\<lparr>calls := [OnComplete d]\<rparr>"
    by (simp only: split round_completed [OF ph])
       (rule finished_stable [where sid = sid], simp add: waiting_def)
  have c: "status f = ''failed'' \<Longrightarrow>
      run (poll_rounds 0 (map Inr rs @ Inr f # later)) (mounted sid)
      = (waiting Finished (Suc (length rs)) sid)\<lparr>calls := [OnError processing_failed_message]\<rparr>"
    by (simp only: split round_failed [OF ph])
       (rule finished_stable [where sid = sid], simp add: waiting_def)
  show ?thesis
    using a b c by (simp add: pre Let_def waiting_def)
qed


text \<open>
  Two non-terminal responses followed by a terminal one, and a late event after it.
\<close>

theorem poll_status_sequence_witness:
  "calls (run (poll_rounds 0
       (map Inr [\<lparr>session_id = ''abc'', status = ''pending'', rest = []\<rparr>,
                 \<lparr>session_id = ''abc'', status = ''processing'', rest = []\<rparr>])) (mounted ''abc'')) = [] \<and>
   calls (run (poll_rounds 0
       (map Inr [\<lparr>session_id = ''abc'', status = ''pending'', rest = []\<rparr>,
                 \<lparr>session_id = ''abc'', status = ''processing'', rest = []\<rparr>]
        @ Inr \<lparr>session_id = ''abc'', status = ''completed'', rest = [(''analyzed_frames'', ''120'')]\<rparr>
        # [Inl ''late'']))
       (mounted ''abc''))
     = [OnComplete \<lparr>session_id = ''abc'', status = ''completed'',
                     rest = [(''analyzed_frames'', ''120'')]\<rparr>] \<and>
   calls (run (poll_rounds 0
       (map Inr [\<lparr>session_id = ''abc'', status = ''pending'', rest = []\<rparr>,
                 \<lparr>session_id = ''abc'', status = ''processing'', rest = []\<rparr>]
        @ Inr \<lparr>session_id = ''abc'', status = ''failed'', rest = []\<rparr> # [Inl ''late'']))
       (mounted ''abc''))
     = [OnError processing_failed_message]"
  using poll_status_sequence
     [of "[\<lparr>session_id = ''abc'', status = ''pending'', rest = []\<rparr>,
           \<lparr>session_id = ''abc'', status = ''processing'', rest = []\<rparr>]"
         "''abc''"
         "\<lparr>session_id = ''abc'', status = ''completed'', rest = [(''analyzed_frames'', ''120'')]\<rparr>"
         "[Inl ''late'']"
         "\<lparr>session_id = ''abc'', status = ''failed'', rest = []\<rparr>"]
  by (simp add: Let_def)

text \<open>
  Claim C8. In a run that is never cancelled, when a poll fails at the transport level
  (after any number of non-terminal responses), \<^verbatim>\<open>onError\<close> is invoked with the message
  of the transport error and the chain has finished: it issues no further request and
  invokes no further callback, whatever is offered to it later.
\<close>

theorem poll_transport_failure:
  assumes "\<forall>r\<in>set rs. status r \<noteq> ''completed'' \<and> status r \<noteq> ''failed''"
  shows "let q = run (poll_rounds 0 (map Inr rs @ Inl msg # later)) (mounted sid) in
           calls q = [OnError msg] \<and>
           chains q = [\<lparr>chain_sessionId = sid, phase = Finished\<rparr>] \<and>
           requests q = replicate (Suc (length rs)) sid"
proof -
  let ?ph = "if rs = [] then InitialDelay else IntervalDelay"
  have pre: "run (poll_rounds 0 (map Inr rs)) (mounted sid) = waiting ?ph (length rs) sid"
    using rounds_pending [of InitialDelay rs 0 sid] assms by (simp add: mounted_waiting)
  have ph: "?ph = InitialDelay \<or> ?ph = IntervalDelay" by simp
  have "run (poll_rounds 0 (map Inr rs @ Inl msg # later)) (mounted sid)
        = run (poll_rounds 0 later)
            (step (PollSettles 0 (Inl msg)) (step (TimerFires 0) (waiting ?ph (length rs) sid)))"
    by (simp only: poll_rounds_append poll_rounds_Cons run_append run_Cons pre)
  also have "\<dots> = (waiting Finished (Suc (length rs)) sid)\<lparr>calls := [OnError msg]\<rparr>"
    by (simp only: round_rejected [OF ph])
       (rule finished_stable [where sid = sid], simp add: waiting_def)
  finally show ?thesis
    by (simp add: Let_def waiting_def)
qed

text \<open>
  One \<^verbatim>\<open>processing\<close> response, then a network failure; a later response is not polled for.
\<close>

theorem poll_transport_failure_witness:
  "calls (run (poll_rounds 0
       (map Inr [\<lparr>session_id = ''abc'', status = ''processing'', rest = []\<rparr>]
        @ Inl ''Failed to fetch'' # [Inr \<lparr>session_id = ''abc'', status = ''completed'', rest = []\<rparr>]))
       (mounted ''abc''))
     = [OnError ''Failed to fetch''] \<and>
   requests (run (poll_rounds 0
       (map Inr [\<lparr>session_id = ''abc'', status = ''processing'', rest = []\<rparr>]
        @ Inl ''Failed to fetch'' # [Inr \<lparr>session_id = ''abc'', status = ''completed'', rest = []\<rparr>]))
       (mounted ''abc''))
     = [''abc'', ''abc'']"
  using poll_transport_failure
     [of "[\<lparr>session_id = ''abc'', status = ''processing'', rest = []\<rparr>]" "''Failed to fetch''"
         "[Inr \<lparr>session_id = ''abc'', status = ''completed'', rest = []\<rparr>]" "''abc''"]
  by (simp add: Let_def)

text \<open>
  Claim C1 does not hold when the cancellation is a change of session id. The component
  is mounted with session \<^verbatim>\<open>a\<close>, the initial timer fires and \<^verbatim>\<open>getSession("a")\<close> is in
  flight; the session id changes to \<^verbatim>\<open>b\<close>, so the cleanup sets \<^verbatim>\<open>cancelledRef.current\<close>
  and the next run of the effect resets it at once (line 29). The poll in flight then
  settles, finds the flag unset and invokes \<^verbatim>\<open>onComplete\<close> with the data of session
  \<^verbatim>\<open>a\<close>, or \<^verbatim>\<open>onError\<close> with the transport message.
\<close>

theorem stale_poll_after_session_change:
  "calls (run [EffectRun ''a'', TimerFires 0, Cleanup 0, EffectRun ''b'',
               PollSettles 0 (Inr \<lparr>session_id = ''a'', status = ''completed'', rest = []\<rparr>)]
            initial_poller)
     = [OnComplete \<lparr>session_id = ''a'', status = ''completed'', rest = []\<rparr>] \<and>
   calls (run [EffectRun ''a'', TimerFires 0, Cleanup 0, EffectRun ''b'',
               PollSettles 0 (Inl ''Failed to fetch'')]
            initial_poller)
     = [OnError ''Failed to fetch'']"
  by (simp add: run_def initial_poller_def effect_run_def cleanup_def poll_begin_def
      poll_settled_def set_phase_def timer_pending_def)

text \<open>
  Cancellation by teardown works as intended: once the flag is set and the effect does
  not run again, no request is issued and no callback is invoked, whatever timers fire
  and whatever polls in flight settle with.
\<close>

lemma cancelled_step_silent:
  assumes "cancelled p" and "\<not> is_effect_run e"
  shows "cancelled (step e p) \<and> calls (step e p) = calls p \<and> requests (step e p) = requests p"
  using assms
  by (cases e)
     (auto simp: cleanup_def poll_begin_def poll_settled_def set_phase_def Let_def
        split: sum.splits)

lemma teardown_discards_polls:
  assumes "cancelled p" and "\<forall>e\<in>set es. \<not> is_effect_run e"
  shows "calls (run es p) = calls p \<and> requests (run es p) = requests p"
  using assms
proof (induction es arbitrary: p)
  case Nil
  then show ?case by (simp add: run_Nil)
next
  case (Cons e es)
  have s: "cancelled (step e p) \<and> calls (step e p) = calls p \<and> requests (step e p) = requests p"
    using Cons.prems by (intro cancelled_step_silent) simp_all
  have "calls (run es (step e p)) = calls (step e p) \<and>
        requests (run es (step e p)) = requests (step e p)"
    using Cons.prems s by (intro Cons.IH) simp_all
  with s show ?case by (simp add: run_Cons del: step.simps)
qed

lemma cleanup_sets_flag: "k < length (chains p) \<Longrightarrow> cancelled (step (Cleanup k) p)"
  by (simp add: cleanup_def set_phase_def Let_def)


subsection \<open>Lifecycle controller\<close>

text \<open>
  Claim C3 as stated fails: \<^verbatim>\<open>handleError\<close> sets the error and the screen and nothing
  else, so the session id of the failed flow is still stored afterwards.
\<close>

theorem handleError_keeps_session_counterexample:
  "sessionId (fire (Failed ''boom'')
      \<lparr>screen = Processing, sessionId = Some ''abc'', report = None, error = []\<rparr>) = Some ''abc'' \<and>
   sessionId (handleError ''boom''
      \<lparr>screen = Processing, sessionId = Some ''abc'', report = None, error = []\<rparr>) \<noteq> None"
  by (simp add: handleError_def)

text \<open>
  Claim C3, as amended. When the controller receives \<^verbatim>\<open>failed(message)\<close> on the
  processing screen, it moves to the upload screen and stores the message for display;
  the session id and the report are left as they were.
\<close>

theorem failed_returns_to_upload:
  "screen s = Processing \<Longrightarrow>
     fire (Failed msg) s = handleError msg s \<and>
     screen (handleError msg s) = Upload \<and>
     error (handleError msg s) = msg \<and>
     sessionId (handleError msg s) = sessionId s \<and>
     report (handleError msg s) = report s"
  by (simp add: handleError_def)

theorem failed_returns_to_upload_witness:
  "fire (Failed ''boom'')
      \<lparr>screen = Processing, sessionId = Some ''abc'', report = None, error = []\<rparr>
   = \<lparr>screen = Upload, sessionId = Some ''abc'', report = None, error = ''boom''\<rparr>"
  using failed_returns_to_upload
          [of "\<lparr>screen = Processing, sessionId = Some ''abc'', report = None, error = []\<rparr>"
              "''boom''"]
  by (simp add: handleError_def)

text \<open>
  Claim C6. Whatever the state, \<^verbatim>\<open>handleReset\<close> makes the screen \<^verbatim>\<open>upload\<close> and clears
  the session id, the report and the displayed error.
\<close>

theorem reset_clears_everything:
  "screen (handleReset s) = Upload \<and> sessionId (handleReset s) = None \<and>
   report (handleReset s) = None \<and> error (handleReset s) = []"
  by (simp add: handleReset_def)

lemma fire_preserves_report_iff_results:
  "report_iff_results s \<Longrightarrow> report_iff_results (fire e s)"
  by (cases e)
     (auto simp: report_iff_results_def handleSessionCreated_def handleComplete_def
        handleError_def handleReset_def)

lemma app_run_preserves_report_iff_results:
  "report_iff_results s \<Longrightarrow> report_iff_results (app_run es s)"
  unfolding app_run_def
  by (induction es arbitrary: s) (simp_all add: fire_preserves_report_iff_results)

text \<open>
  Claim C9. In every state the controller reaches from its initial state, a report is
  stored exactly when the screen is \<^verbatim>\<open>results\<close>: \<^verbatim>\<open>handleComplete\<close> stores the report and
  enters \<^verbatim>\<open>results\<close> together, \<^verbatim>\<open>handleReset\<close> clears the report and leaves \<^verbatim>\<open>results\<close>
  together.
\<close>

theorem report_exactly_in_results:
  "(report (app_run es initial_app) \<noteq> None) = (screen (app_run es initial_app) = Results) \<and>
   report (handleComplete data s) = Some data \<and> screen (handleComplete data s) = Results \<and>
   report (handleReset s) = None \<and> screen (handleReset s) = Upload"
proof -
  have "report_iff_results initial_app"
    by (simp add: report_iff_results_def initial_app_def)
  then have "report_iff_results (app_run es initial_app)"
    by (rule app_run_preserves_report_iff_results)
  then show ?thesis
    by (simp add: report_iff_results_def handleComplete_def handleReset_def)
qed

text \<open>The results screen is reached, with the report exactly as received.\<close>

lemma results_reachable:
  "app_run [SessionCreated ''abc'',
            Completed \<lparr>session_id = ''abc'', status = ''completed'', rest = []\<rparr>] initial_app
   = \<lparr>screen = Results, sessionId = Some ''abc'',
      report = Some \<lparr>session_id = ''abc'', status = ''completed'', rest = []\<rparr>, error = []\<rparr>"
  by (simp add: app_run_def initial_app_def handleSessionCreated_def handleComplete_def)

subsection \<open>Chat session\<close>


lemma chat_run_Nil: "chat_run sid [] sys = sys"
  by (simp add: chat_run_def)

lemma chat_run_Cons: "chat_run sid (e # es) sys = chat_run sid es (chat_step sid e sys)"
  by (simp add: chat_run_def)

lemma chat_run_append: "chat_run sid (es @ fs) sys = chat_run sid fs (chat_run sid es sys)"
  by (simp add: chat_run_def)

lemma handleSend_noop:
  "trim (input s) = [] \<or> loading s \<Longrightarrow> handleSend sid s = (s, None)"
  by (auto simp: handleSend_def Let_def)

lemma handleSend_accepted:
  "trim (input s) \<noteq> [] \<Longrightarrow> \<not> loading s \<Longrightarrow>
   handleSend sid s =
     (s\<lparr>input := [], chat_error := [],
        messages := messages s @ [\<lparr>role = User, content = trim (input s)\<rparr>],
        loading := True\<rparr>,
      Some (sid, trim (input s)))"
  by (simp add: handleSend_def Let_def)

lemma chat_step_messages_prefix:
  "prefix (messages (panel sys)) (messages (panel (chat_step sid e sys)))"
  by (cases e)
     (auto simp: handleSend_def handleSend_settled_def Let_def split: sum.splits)

lemma tl_of_short: "length xs \<le> 1 \<Longrightarrow> tl xs = []"
  by (cases xs) simp_all

lemma chat_step_consistent:
  "chat_consistent sys \<Longrightarrow> chat_consistent (chat_step sid e sys)"
  by (cases e)
     (auto simp: chat_consistent_def handleSend_def handleSend_settled_def Let_def tl_of_short
        split: sum.splits)

lemma chat_run_consistent:
  "chat_consistent sys \<Longrightarrow> chat_consistent (chat_run sid es sys)"
  by (induction es arbitrary: sys) (simp_all add: chat_run_Nil chat_run_Cons chat_step_consistent del: chat_step.simps)

lemma initial_consistent: "chat_consistent initial_chat_system"
  by (simp add: chat_consistent_def initial_chat_system_def initial_chat_def)

text \<open>While a send is outstanding and nothing settles, the log and the outstanding call stay.\<close>

lemma loading_step_keeps:
  assumes "loading (panel sys)" and "\<not> is_settle e"
  shows "loading (panel (chat_step sid e sys)) \<and>
         messages (panel (chat_step sid e sys)) = messages (panel sys) \<and>
         outstanding (chat_step sid e sys) = outstanding sys"
  using assms by (cases e) (auto simp: handleSend_def Let_def)

lemma loading_run_keeps:
  assumes "loading (panel sys)" and "\<forall>e\<in>set es. \<not> is_settle e"
  shows "loading (panel (chat_run sid es sys)) \<and>
         messages (panel (chat_run sid es sys)) = messages (panel sys) \<and>
         outstanding (chat_run sid es sys) = outstanding sys"
  using assms
proof (induction es arbitrary: sys)
  case Nil
  then show ?case by (simp add: chat_run_Nil)
next
  case (Cons e es)
  have k: "loading (panel (chat_step sid e sys)) \<and>
         messages (panel (chat_step sid e sys)) = messages (panel sys) \<and>
         outstanding (chat_step sid e sys) = outstanding sys"
    using Cons.prems by (intro loading_step_keeps) simp_all
  have "loading (panel (chat_run sid es (chat_step sid e sys))) \<and>
         messages (panel (chat_run sid es (chat_step sid e sys))) = messages (panel (chat_step sid e sys)) \<and>
         outstanding (chat_run sid es (chat_step sid e sys)) = outstanding (chat_step sid e sys)"
    using Cons.prems k by (intro Cons.IH) simp_all
  with k show ?case by (simp add: chat_run_Cons del: chat_step.simps)
qed

lemma send_step_accepted:
  assumes "trim (input (panel sys)) \<noteq> []" and "\<not> loading (panel sys)"
  shows "chat_step sid Send sys =
           sys\<lparr>panel := (panel sys)\<lparr>input := [], chat_error := [],
                   messages := messages (panel sys) @
                               [\<lparr>role = User, content = trim (input (panel sys))\<rparr>],
                   loading := True\<rparr>,
               outstanding := outstanding sys @ [(sid, trim (input (panel sys)))]\<rparr>"
  using assms by (simp add: handleSend_accepted)

text \<open>
  Claim C5. An accepted send appends exactly one user message. Whatever happens before
  the call settles (typing, dismissing the error, further submits), if the call fails the
  log is the old log followed by that user message, the transport message is shown and
  can be dismissed; if it succeeds the log is the old log followed by the user message
  and one assistant message carrying the reply. No event ever changes, removes or
  reorders a message already in the log: the old log is a prefix of the new one.
\<close>

theorem chat_log_append_only:
  assumes "trim (input (panel sys)) \<noteq> []" and "\<not> loading (panel sys)"
    and "outstanding sys = []" and "\<forall>e\<in>set es. \<not> is_settle e"
  shows "messages (panel (chat_step sid Send sys))
           = messages (panel sys) @ [\<lparr>role = User, content = trim (input (panel sys))\<rparr>] \<and>
         (let t = chat_run sid (Send # es @ [Settle (Inl msg)]) sys in
            messages (panel t)
              = messages (panel sys) @ [\<lparr>role = User, content = trim (input (panel sys))\<rparr>] \<and>
            chat_error (panel t) = msg \<and>
            chat_error (panel (chat_step sid Dismiss t)) = []) \<and>
         messages (panel (chat_run sid (Send # es @ [Settle (Inr data)]) sys))
           = messages (panel sys) @ [\<lparr>role = User, content = trim (input (panel sys))\<rparr>,
                                     \<lparr>role = Assistant, content = reply data\<rparr>] \<and>
         prefix (messages (panel sys')) (messages (panel (chat_step sid e sys')))"
proof -
  let ?u = "\<lparr>role = User, content = trim (input (panel sys))\<rparr>"
  let ?s1 = "chat_step sid Send sys"
  have s1: "messages (panel ?s1) = messages (panel sys) @ [?u]"
        "loading (panel ?s1)" "outstanding ?s1 = [(sid, trim (input (panel sys)))]"
    using assms(1-3) by (simp_all add: send_step_accepted del: chat_step.simps)
  let ?s2 = "chat_run sid es ?s1"
  have s2: "messages (panel ?s2) = messages (panel sys) @ [?u]"
        "outstanding ?s2 = [(sid, trim (input (panel sys)))]"
    using loading_run_keeps [OF s1(2) assms(4), of sid] s1 by simp_all
  have run: "\<And>r. chat_run sid (Send # es @ [Settle r]) sys = chat_step sid (Settle r) ?s2"
    by (simp add: chat_run_Cons chat_run_append chat_run_Nil del: chat_step.simps)
  have f: "messages (panel (chat_step sid (Settle (Inl msg)) ?s2)) = messages (panel sys) @ [?u]"
          "chat_error (panel (chat_step sid (Settle (Inl msg)) ?s2)) = msg"
    using s2 by (simp_all add: handleSend_settled_def)
  have g: "messages (panel (chat_step sid (Settle (Inr data)) ?s2))
           = messages (panel sys) @ [?u, \<lparr>role = Assistant, content = reply data\<rparr>]"
    using s2 by (simp add: handleSend_settled_def)
  show ?thesis
    using s1(1) f g chat_step_messages_prefix [of sys' sid e]
    by (simp add: run Let_def del: chat_step.simps) simp
qed


text \<open>
  A question asked after one exchange: the failure leaves three messages, the success four.
\<close>

theorem chat_log_append_only_witness:
  "messages (panel (chat_run ''abc''
       (Send # [Type ''next'', Send, Dismiss] @ [Settle (Inl ''Chat failed (500)'')])
       \<lparr>panel = \<lparr>messages = [\<lparr>role = User, content = ''hello''\<rparr>,
                                \<lparr>role = Assistant, content = ''hi''\<rparr>],
                   input = '' why? '', loading = False, chat_error = []\<rparr>,
        outstanding = []\<rparr>))
     = [\<lparr>role = User, content = ''hello''\<rparr>, \<lparr>role = Assistant, content = ''hi''\<rparr>,
        \<lparr>role = User, content = ''why?''\<rparr>] \<and>
   messages (panel (chat_run ''abc''
       (Send # [Type ''next'', Send, Dismiss] @ [Settle (Inr \<lparr>reply = ''because''\<rparr>)])
       \<lparr>panel = \<lparr>messages = [\<lparr>role = User, content = ''hello''\<rparr>,
                                \<lparr>role = Assistant, content = ''hi''\<rparr>],
                   input = '' why? '', loading = False, chat_error = []\<rparr>,
        outstanding = []\<rparr>))
     = [\<lparr>role = User, content = ''hello''\<rparr>, \<lparr>role = Assistant, content = ''hi''\<rparr>,
        \<lparr>role = User, content = ''why?''\<rparr>, \<lparr>role = Assistant, content = ''because''\<rparr>]"
  using chat_log_append_only
     [of "\<lparr>panel = \<lparr>messages = [\<lparr>role = User, content = ''hello''\<rparr>,
                                  \<lparr>role = Assistant, content = ''hi''\<rparr>],
                     input = '' why? '', loading = False, chat_error = []\<rparr>,
          outstanding = []\<rparr>"
         "[Type ''next'', Send, Dismiss]" "''abc''" "''Chat failed (500)''"
         "\<lparr>reply = ''because''\<rparr>"]
  by (simp add: Let_def trim_def is_space_def)

text \<open>
  Claim C7. \<^verbatim>\<open>handleSend\<close> changes nothing and issues no request when the trimmed input
  is empty or a send is outstanding. Hence, from the initial state, at most one
  \<^verbatim>\<open>sendChat\<close> call is outstanding at any time, and a submit while one is outstanding is a
  no-op.
\<close>

theorem send_noop_when_blank_or_busy:
  "(trim (input s) = [] \<or> loading s \<longrightarrow> handleSend sid s = (s, None)) \<and>
   (trim (input (panel sys)) = [] \<or> loading (panel sys) \<longrightarrow> chat_step sid Send sys = sys) \<and>
   length (outstanding (chat_run sid es initial_chat_system)) \<le> 1 \<and>
   (outstanding (chat_run sid es initial_chat_system) \<noteq> [] \<longrightarrow>
      chat_step sid Send (chat_run sid es initial_chat_system)
        = chat_run sid es initial_chat_system)"
proof -
  have c: "chat_consistent (chat_run sid es initial_chat_system)"
    using initial_consistent by (rule chat_run_consistent)
  have a: "trim (input s) = [] \<or> loading s \<longrightarrow> handleSend sid s = (s, None)"
    using handleSend_noop by blast
  have b: "\<And>t. trim (input (panel t)) = [] \<or> loading (panel t) \<Longrightarrow> chat_step sid Send t = t"
    by (simp add: handleSend_noop)
  have d: "outstanding (chat_run sid es initial_chat_system) \<noteq> [] \<longrightarrow>
      chat_step sid Send (chat_run sid es initial_chat_system)
        = chat_run sid es initial_chat_system"
    using c b [of "chat_run sid es initial_chat_system"]
    by (simp add: chat_consistent_def del: chat_step.simps)
  show ?thesis
    using a b [of sys] c d by (simp add: chat_consistent_def del: chat_step.simps)
qed

text \<open>
  A blank input, a submit while loading, and two submits in a row from the initial state.
\<close>

theorem send_noop_when_blank_or_busy_witness:
  "handleSend ''abc'' \<lparr>messages = [], input = ''  '', loading = False, chat_error = []\<rparr>
     = (\<lparr>messages = [], input = ''  '', loading = False, chat_error = []\<rparr>, None) \<and>
   chat_step ''abc'' Send
       \<lparr>panel = \<lparr>messages = [\<lparr>role = User, content = ''hi''\<rparr>], input = ''more'',
                   loading = True, chat_error = []\<rparr>,
        outstanding = [(''abc'', ''hi'')]\<rparr>
     = \<lparr>panel = \<lparr>messages = [\<lparr>role = User, content = ''hi''\<rparr>], input = ''more'',
                   loading = True, chat_error = []\<rparr>,
        outstanding = [(''abc'', ''hi'')]\<rparr> \<and>
   outstanding (chat_run ''abc'' [Type ''hi'', Send, Type ''more'', Send] initial_chat_system)
     = [(''abc'', ''hi'')]"
  using send_noop_when_blank_or_busy
     [of "\<lparr>messages = [], input = ''  '', loading = False, chat_error = []\<rparr>" "''abc''"
         "\<lparr>panel = \<lparr>messages = [\<lparr>role = User, content = ''hi''\<rparr>], input = ''more'',
                     loading = True, chat_error = []\<rparr>,
          outstanding = [(''abc'', ''hi'')]\<rparr>"
         "[Type ''hi'', Send, Type ''more'', Send]"]
  by (simp add: trim_def is_space_def chat_run_def initial_chat_system_def initial_chat_def
      handleSend_def Let_def)

text \<open>
  Claim C10. For an accepted send, the state with which the request is issued has an empty
  input field and no displayed error. When the send then fails the input field stays
  empty (settling never writes it), and the question is in the log as the appended user
  message.
\<close>

theorem accepted_send_clears_input:
  assumes "trim (input s) \<noteq> []" and "\<not> loading s"
  shows "snd (handleSend sid s) = Some (sid, trim (input s)) \<and>
         input (fst (handleSend sid s)) = [] \<and>
         chat_error (fst (handleSend sid s)) = [] \<and>
         input (handleSend_settled (Inl msg) (fst (handleSend sid s))) = [] \<and>
         messages (handleSend_settled (Inl msg) (fst (handleSend sid s)))
           = messages s @ [\<lparr>role = User, content = trim (input s)\<rparr>] \<and>
         input (handleSend_settled r s') = input s'"
  using assms
  by (simp add: handleSend_accepted handleSend_settled_def split: sum.splits)

text \<open>
  A question typed while an old error is displayed, sent, and rejected.
\<close>

theorem accepted_send_clears_input_witness:
  "handleSend ''abc'' \<lparr>messages = [], input = ''why? '', loading = False, chat_error = ''old''\<rparr>
     = (\<lparr>messages = [\<lparr>role = User, content = ''why?''\<rparr>], input = [], loading = True,
         chat_error = []\<rparr>, Some (''abc'', ''why?'')) \<and>
   handleSend_settled (Inl ''Chat failed (500)'')
       (fst (handleSend ''abc''
          \<lparr>messages = [], input = ''why? '', loading = False, chat_error = ''old''\<rparr>))
     = \<lparr>messages = [\<lparr>role = User, content = ''why?''\<rparr>], input = [], loading = False,
        chat_error = ''Chat failed (500)''\<rparr>"
  using accepted_send_clears_input
     [of "\<lparr>messages = [], input = ''why? '', loading = False, chat_error = ''old''\<rparr>"
         "''abc''" "''Chat failed (500)''"]
  by (simp add: trim_def is_space_def handleSend_def handleSend_settled_def Let_def)


end
